theory Spec2Isabelle
  imports Complex_Main "HOL-Library.Word"
begin

section \<open>Tone synthesis of healthvis-mobile/generate_tones.py\<close>

text \<open>
  The embedding follows \<^verbatim>\<open>generate_tone(frequency, duration, sample_rate, fade_duration)\<close>
  line by line. The numpy arrays of float64 are lists of reals: the arithmetic of the
  model is exact, and \<open>sin\<close> and \<open>pi\<close> are the real sine and the real number pi.
  The int16 samples of the result are \<open>16 word\<close>, read with \<open>sint\<close>.
  Every exception numpy raises inside the function is the error value \<open>ValueError\<close>.
\<close>

subsection \<open>Library operations the function calls\<close>

datatype error = ValueError

text \<open>Python's \<^verbatim>\<open>int(x)\<close> on a float: truncation towards zero.\<close>

definition py_int :: "real \<Rightarrow> int" where
  "py_int x = (if 0 \<le> x then \<lfloor>x\<rfloor> else \<lceil>x\<rceil>)"

text \<open>
  \<^verbatim>\<open>np.linspace(start, stop, num, endpoint)\<close>. numpy raises ValueError for a negative
  \<open>num\<close>; with \<open>div = num - 1\<close> (endpoint) or \<open>div = num\<close> (no endpoint) it computes
  \<open>arange(num) * step + start\<close> for \<open>step = (stop - start) / div\<close> when \<open>div > 0\<close>
  (dividing first when the step is zero), \<open>arange(num) * (stop - start) + start\<close>
  otherwise, and with an endpoint and \<open>num > 1\<close> it overwrites the last entry by \<open>stop\<close>.
\<close>

definition linspace :: "real \<Rightarrow> real \<Rightarrow> int \<Rightarrow> bool \<Rightarrow> error + real list" where
  "linspace start stop num endpoint =
     (if num < 0 then Inl ValueError
      else
        let n = nat num;
            dv = (if endpoint then num - 1 else num);
            delta = stop - start;
            y = (if dv > 0
                 then (let step = delta / real_of_int dv in
                       if step = 0
                       then map (\<lambda>i. real i / real_of_int dv * delta + start) [0..<n]
                       else map (\<lambda>i. real i * step + start) [0..<n])
                 else map (\<lambda>i. real i * delta + start) [0..<n])
        in Inr (if endpoint \<and> num > 1 then y[n - 1 := stop] else y))"

text \<open>
  The in-place product \<^verbatim>\<open>a *= b\<close> of two one-dimensional arrays, where \<open>a\<close> is the
  target: elementwise for equal lengths, \<open>b\<close> broadcast over \<open>a\<close> when \<open>b\<close> has one
  entry, and ValueError for every other pair of shapes.
\<close>

definition imul :: "real list \<Rightarrow> real list \<Rightarrow> error + real list" where
  "imul a b =
     (if length b = length a then Inr (map2 (*) a b)
      else if length b = 1 then Inr (map (\<lambda>x. x * hd b) a)
      else Inl ValueError)"

text \<open>\<^verbatim>\<open>audio[:k] *= b\<close>: the slice holds the first \<open>min k (length audio)\<close> entries.\<close>

definition imul_head :: "real list \<Rightarrow> nat \<Rightarrow> real list \<Rightarrow> error + real list" where
  "imul_head audio k b =
     (case imul (take k audio) b of
        Inl e \<Rightarrow> Inl e
      | Inr s \<Rightarrow> Inr (s @ drop k audio))"

text \<open>
  \<^verbatim>\<open>audio[-k:] *= b\<close> for \<open>k > 0\<close>: the slice starts at \<open>max (length audio - k) 0\<close>,
  which is the truncating subtraction of \<open>nat\<close>.
\<close>

definition imul_tail :: "real list \<Rightarrow> nat \<Rightarrow> real list \<Rightarrow> error + real list" where
  "imul_tail audio k b =
     (case imul (drop (length audio - k) audio) b of
        Inl e \<Rightarrow> Inl e
      | Inr s \<Rightarrow> Inr (take (length audio - k) audio @ s))"

text \<open>
  \<^verbatim>\<open>x.astype(np.int16)\<close> on one entry: the fraction is dropped (towards zero) and the
  integer is stored in 16 bits.
\<close>

definition astype_int16 :: "real \<Rightarrow> 16 word" where
  "astype_int16 x = word_of_int (py_int x)"

subsection \<open>generate_tone\<close>

text \<open>Lines 60 to 67: the fade in and the fade out, for a fade count \<open>fade_samples\<close>.\<close>

definition apply_fade :: "real list \<Rightarrow> int \<Rightarrow> error + real list" where
  "apply_fade audio fade_samples =
     (if fade_samples > 0 then
        (case linspace 0 1 fade_samples True of
           Inl e \<Rightarrow> Inl e
         | Inr fade_in \<Rightarrow>
            (case imul_head audio (nat fade_samples) fade_in of
               Inl e \<Rightarrow> Inl e
             | Inr audio1 \<Rightarrow>
                (case linspace 1 0 fade_samples True of
                   Inl e \<Rightarrow> Inl e
                 | Inr fade_out \<Rightarrow> imul_tail audio1 (nat fade_samples) fade_out)))
      else Inr audio)"

text \<open>The sample count \<open>N\<close> of line 51 and the fade count \<open>F\<close> of line 58.\<close>

definition num_samples :: "real \<Rightarrow> real \<Rightarrow> int" where
  "num_samples duration sample_rate = py_int (sample_rate * duration)"

definition fade_samples :: "real \<Rightarrow> real \<Rightarrow> int" where
  "fade_samples sample_rate fade_duration = py_int (sample_rate * fade_duration)"

text \<open>Lines 52 to 55: the time array and the sine wave.\<close>

definition time_array :: "real \<Rightarrow> real \<Rightarrow> error + real list" where
  "time_array duration sample_rate =
     linspace 0 duration (num_samples duration sample_rate) False"

definition sine_wave :: "real \<Rightarrow> real \<Rightarrow> real \<Rightarrow> error + real list" where
  "sine_wave frequency duration sample_rate =
     (case time_array duration sample_rate of
        Inl e \<Rightarrow> Inl e
      | Inr t \<Rightarrow> Inr (map (\<lambda>ti. sin (2 * pi * frequency * ti)) t))"

text \<open>The array before line 70: the faded amplitudes.\<close>

definition faded_audio :: "real \<Rightarrow> real \<Rightarrow> real \<Rightarrow> real \<Rightarrow> error + real list" where
  "faded_audio frequency duration sample_rate fade_duration =
     (case sine_wave frequency duration sample_rate of
        Inl e \<Rightarrow> Inl e
      | Inr audio \<Rightarrow> apply_fade audio (fade_samples sample_rate fade_duration))"

definition generate_tone :: "real \<Rightarrow> real \<Rightarrow> real \<Rightarrow> real \<Rightarrow> error + 16 word list" where
  "generate_tone frequency duration sample_rate fade_duration =
     (case faded_audio frequency duration sample_rate fade_duration of
        Inl e \<Rightarrow> Inl e
      | Inr audio \<Rightarrow> Inr (map (\<lambda>a. astype_int16 (a * 32767)) audio))"

subsection \<open>The inputs the specification calls valid\<close>

text \<open>
  A ToneSpec has a positive frequency, a positive duration, a positive integer sample
  rate and a fade duration between 0 and half the duration.
\<close>

definition valid_spec :: "real \<Rightarrow> real \<Rightarrow> real \<Rightarrow> real \<Rightarrow> bool" where
  "valid_spec frequency duration sample_rate fade_duration \<longleftrightarrow>
     0 < frequency \<and> 0 < duration \<and> 0 < sample_rate \<and> sample_rate \<in> \<int> \<and>
     0 \<le> fade_duration \<and> fade_duration \<le> duration / 2"

subsection \<open>Closed forms used in the statements\<close>

text \<open>
  Entry \<open>j\<close> of \<^verbatim>\<open>np.linspace(0, 1, F)\<close> and of \<^verbatim>\<open>np.linspace(1, 0, F)\<close>; the lemmas
  \<open>linspace_rise_eq\<close> and \<open>linspace_fall_eq\<close> below prove that the two calls of the
  model return exactly these entries.
\<close>

definition ramp_up :: "int \<Rightarrow> nat \<Rightarrow> real" where
  "ramp_up F j = (if F = 1 then 0 else real j / real_of_int (F - 1))"

definition ramp_down :: "int \<Rightarrow> nat \<Rightarrow> real" where
  "ramp_down F j = (if F = 1 then 1 else 1 - real j / real_of_int (F - 1))"

text \<open>
  The factor that the two in-place products together put on entry \<open>i\<close> of an array of
  \<open>n\<close> entries, for a fade count \<open>F\<close> between 1 and \<open>n\<close>.
\<close>

definition gain :: "int \<Rightarrow> nat \<Rightarrow> nat \<Rightarrow> real" where
  "gain F n i =
     (if i < nat F then ramp_up F i else 1) *
     (if n - nat F \<le> i then ramp_down F (i - (n - nat F)) else 1)"

definition env :: "int \<Rightarrow> nat \<Rightarrow> nat \<Rightarrow> real" where
  "env F n i = (if F \<le> 0 then 1 else gain F n i)"

text \<open>Entry \<open>i\<close> of the sine wave of line 55.\<close>

definition amp :: "real \<Rightarrow> real \<Rightarrow> real \<Rightarrow> nat \<Rightarrow> real" where
  "amp f d sr i = sin (2 * pi * f * (real i * (d / real_of_int (num_samples d sr))))"

section \<open>Properties of the library operations\<close>

lemma linspace_open_eq:
  "0 \<le> N \<Longrightarrow>
   linspace 0 d N False = Inr (map (\<lambda>i. real i * (d / real_of_int N)) [0..<nat N])"
  by (auto simp: linspace_def Let_def)

lemma linspace_rise_eq:
  "1 \<le> F \<Longrightarrow> linspace 0 1 F True = Inr (map (ramp_up F) [0..<nat F])"
  unfolding ramp_up_def
  apply (auto simp: linspace_def Let_def intro!: nth_equalityI)
  apply (auto simp: nth_list_update)
  done

lemma linspace_fall_eq:
  "1 \<le> F \<Longrightarrow> linspace 1 0 F True = Inr (map (ramp_down F) [0..<nat F])"
  unfolding ramp_down_def
  apply (auto simp: linspace_def Let_def intro!: nth_equalityI)
  apply (auto simp: nth_list_update)
  done

lemma imul_head_ok:
  "k \<le> length a \<Longrightarrow> length b = k \<Longrightarrow>
   imul_head a k b = Inr (map (\<lambda>i. a ! i * (if i < k then b ! i else 1)) [0..<length a])"
  by (auto simp: imul_head_def imul_def nth_append intro!: nth_equalityI)

lemma imul_tail_ok:
  "k \<le> length a \<Longrightarrow> length b = k \<Longrightarrow>
   imul_tail a k b =
     Inr (map (\<lambda>i. a ! i * (if length a - k \<le> i then b ! (i - (length a - k)) else 1))
            [0..<length a])"
  by (auto simp: imul_tail_def imul_def nth_append intro!: nth_equalityI)

lemma ramp_up_bounds: "j < nat F \<Longrightarrow> 0 \<le> ramp_up F j \<and> ramp_up F j \<le> 1"
  by (auto simp: ramp_up_def divide_le_eq)

lemma ramp_down_bounds: "j < nat F \<Longrightarrow> 0 \<le> ramp_down F j \<and> ramp_down F j \<le> 1"
  by (auto simp: ramp_down_def divide_le_eq)

lemma gain_bounds:
  assumes "nat F \<le> n" "i < n"
  shows "0 \<le> gain F n i \<and> gain F n i \<le> 1"
proof -
  let ?u = "if i < nat F then ramp_up F i else 1"
  let ?d = "if n - nat F \<le> i then ramp_down F (i - (n - nat F)) else 1"
  have u: "0 \<le> ?u \<and> ?u \<le> 1" using ramp_up_bounds[of i F] by simp
  have "n - nat F \<le> i \<Longrightarrow> i - (n - nat F) < nat F" using assms by linarith
  then have d: "0 \<le> ?d \<and> ?d \<le> 1" using ramp_down_bounds[of "i - (n - nat F)" F] by simp
  have "0 \<le> ?u * ?d" using u d by simp
  moreover have "?u * ?d \<le> 1 * 1" using u d by (intro mult_mono) auto
  ultimately show ?thesis by (simp add: gain_def)
qed

lemma env_bounds: "nat F \<le> n \<Longrightarrow> i < n \<Longrightarrow> 0 \<le> env F n i \<and> env F n i \<le> 1"
  using gain_bounds[of F n i] by (simp add: env_def)

subsection \<open>Truncation and the 16-bit cast\<close>

lemma py_int_abs: "\<bar>py_int x\<bar> = \<lfloor>\<bar>x\<bar>\<rfloor>"
  by (auto simp: py_int_def abs_if ceiling_def) linarith+

lemma py_int_mono_abs: "\<bar>x\<bar> \<le> \<bar>y\<bar> \<Longrightarrow> \<bar>py_int x\<bar> \<le> \<bar>py_int y\<bar>"
  by (simp add: py_int_abs floor_mono)

lemma py_int_scaled_bound: "\<bar>x\<bar> \<le> 1 \<Longrightarrow> \<bar>py_int (x * 32767)\<bar> \<le> 32767"
proof -
  assume "\<bar>x\<bar> \<le> 1"
  then have "\<bar>x * 32767\<bar> \<le> 32767" by (simp add: abs_mult)
  then have "\<lfloor>\<bar>x * 32767\<bar>\<rfloor> \<le> 32767" by linarith
  then show ?thesis by (simp only: py_int_abs)
qed

lemma sint_astype_int16:
  assumes "\<bar>x\<bar> \<le> 1"
  shows "sint (astype_int16 (x * 32767)) = py_int (x * 32767)"
proof -
  have "\<bar>py_int (x * 32767)\<bar> \<le> 32767" using assms by (rule py_int_scaled_bound)
  then have "- (2 ^ (LENGTH(16) - 1)) \<le> py_int (x * 32767) \<and>
             py_int (x * 32767) < 2 ^ (LENGTH(16) - 1)"
    by simp linarith
  then show ?thesis unfolding astype_int16_def
    by (simp add: sint_sbintrunc' signed_take_bit_int_eq_self)
qed

section \<open>The stages of generate_tone in closed form\<close>

lemma sine_wave_ok:
  "0 \<le> num_samples d sr \<Longrightarrow>
   sine_wave f d sr = Inr (map (amp f d sr) [0..<nat (num_samples d sr)])"
  by (simp add: sine_wave_def time_array_def linspace_open_eq amp_def)


lemma apply_fade_none: "F \<le> 0 \<Longrightarrow> apply_fade audio F = Inr audio"
  by (simp add: apply_fade_def)

lemma apply_fade_ok:
  assumes "1 \<le> F" "nat F \<le> length audio"
  shows "apply_fade audio F =
           Inr (map (\<lambda>i. audio ! i * gain F (length audio) i) [0..<length audio])"
  using assms
  by (auto simp: apply_fade_def linspace_rise_eq linspace_fall_eq imul_head_ok imul_tail_ok
        gain_def)



lemma faded_audio_closed:
  assumes "0 \<le> num_samples d sr" "fade_samples sr fd \<le> num_samples d sr"
  shows "faded_audio f d sr fd =
     Inr (map (\<lambda>i. amp f d sr i * env (fade_samples sr fd) (nat (num_samples d sr)) i)
            [0..<nat (num_samples d sr)])"
proof (cases "fade_samples sr fd \<le> 0")
  case True
  then show ?thesis using assms
    by (simp add: faded_audio_def sine_wave_ok apply_fade_none env_def)
next
  case False
  then have "1 \<le> fade_samples sr fd" by simp
  moreover have "nat (fade_samples sr fd) \<le> nat (num_samples d sr)" using assms by simp
  ultimately show ?thesis using assms False
    by (simp add: faded_audio_def sine_wave_ok apply_fade_ok env_def)
qed

lemma amp_abs: "\<bar>amp f d sr i\<bar> \<le> 1"
  by (simp add: amp_def abs_le_iff minus_le_iff)

lemma amp_env_abs:
  assumes "nat F \<le> n" "i < n"
  shows "\<bar>amp f d sr i * env F n i\<bar> \<le> \<bar>amp f d sr i\<bar>"
proof -
  have "\<bar>amp f d sr i * env F n i\<bar> = \<bar>amp f d sr i\<bar> * env F n i"
    using env_bounds[OF assms] by (simp add: abs_mult)
  also have "\<dots> \<le> \<bar>amp f d sr i\<bar> * 1"
    using env_bounds[OF assms] by (intro mult_left_mono) auto
  finally show ?thesis by simp
qed

lemma valid_spec_counts:
  assumes "valid_spec f d sr fd"
  shows "num_samples d sr = \<lfloor>sr * d\<rfloor>" "fade_samples sr fd = \<lfloor>sr * fd\<rfloor>"
    "0 \<le> num_samples d sr" "0 \<le> fade_samples sr fd"
    "2 * fade_samples sr fd \<le> num_samples d sr"
proof -
  from assms have p: "0 < d" "0 < sr" "0 \<le> fd" "fd \<le> d / 2"
    by (simp_all add: valid_spec_def)
  have a: "0 \<le> sr * d" "0 \<le> sr * fd" using p by simp_all
  show n: "num_samples d sr = \<lfloor>sr * d\<rfloor>" using a by (simp add: num_samples_def py_int_def)
  show f: "fade_samples sr fd = \<lfloor>sr * fd\<rfloor>" using a by (simp add: fade_samples_def py_int_def)
  show "0 \<le> num_samples d sr" using a n by simp
  show "0 \<le> fade_samples sr fd" using a f by simp
  have "sr * fd \<le> sr * (d / 2)" using p by (intro mult_left_mono) auto
  then have "2 * (sr * fd) \<le> sr * d" by simp
  moreover have "real_of_int \<lfloor>sr * fd\<rfloor> \<le> sr * fd" by simp
  ultimately have "real_of_int (2 * \<lfloor>sr * fd\<rfloor>) \<le> sr * d" by simp linarith
  then have "2 * \<lfloor>sr * fd\<rfloor> \<le> \<lfloor>sr * d\<rfloor>" by (rule le_floor_iff[THEN iffD2])
  then show "2 * fade_samples sr fd \<le> num_samples d sr" using n f by simp
qed

lemma valid_spec_fits:
  assumes "valid_spec f d sr fd"
  shows "fade_samples sr fd \<le> num_samples d sr"
  using valid_spec_counts(4,5)[OF assms] by linarith

subsection \<open>The sine at quarter turns, for the concrete runs\<close>




lemma generate_tone_closed:
  assumes "0 \<le> num_samples d sr" "fade_samples sr fd \<le> num_samples d sr"
  shows "generate_tone f d sr fd =
     Inr (map (\<lambda>i. astype_int16
                 (amp f d sr i * env (fade_samples sr fd) (nat (num_samples d sr)) i * 32767))
            [0..<nat (num_samples d sr)])"
  by (simp add: generate_tone_def faded_audio_closed[OF assms] comp_def)

lemma faded_entry_abs:
  assumes "fade_samples sr fd \<le> num_samples d sr" "i < nat (num_samples d sr)"
  shows "\<bar>amp f d sr i * env (fade_samples sr fd) (nat (num_samples d sr)) i\<bar> \<le> 1"
proof -
  have "nat (fade_samples sr fd) \<le> nat (num_samples d sr)" using assms by simp
  from amp_env_abs[OF this assms(2), of f d sr] amp_abs[of f d sr i]
  show ?thesis by linarith
qed

section \<open>The claims\<close>

subsection \<open>C5: the length of the buffer\<close>



subsection \<open>C6: the range of the samples\<close>

text \<open>
  Claim C6. For every valid ToneSpec, every sample of the returned buffer, read as a
  signed 16-bit integer, lies between -32767 and 32767: the cast never wraps and the
  value -32768 does not occur.
\<close>

theorem C6_sample_range:
  assumes "valid_spec f d sr fd"
  shows "\<exists>buf. generate_tone f d sr fd = Inr buf \<and> length buf = nat (num_samples d sr) \<and>
           (\<forall>i<length buf. - 32767 \<le> sint (buf ! i) \<and> sint (buf ! i) \<le> 32767)"
proof -
  note c = valid_spec_counts[OF assms]
  note fit = valid_spec_fits[OF assms]
  let ?N = "nat (num_samples d sr)"
  let ?x = "\<lambda>i. amp f d sr i * env (fade_samples sr fd) ?N i"
  let ?buf = "map (\<lambda>i. astype_int16 (?x i * 32767)) [0..<?N]"
  have g: "generate_tone f d sr fd = Inr ?buf"
    by (rule generate_tone_closed[OF c(3) fit])
  have "- 32767 \<le> sint (?buf ! i) \<and> sint (?buf ! i) \<le> 32767" if "i < length ?buf" for i
  proof -
    from that have i: "i < ?N" by simp
    have a: "\<bar>?x i\<bar> \<le> 1" by (rule faded_entry_abs[OF fit i])
    have "sint (?buf ! i) = py_int (?x i * 32767)"
      using i sint_astype_int16[OF a] by simp
    moreover have "\<bar>py_int (?x i * 32767)\<bar> \<le> 32767" by (rule py_int_scaled_bound[OF a])
    ultimately show ?thesis by linarith
  qed
  with g show ?thesis by (intro exI[of _ ?buf]) simp
qed

theorem C6_sample_range_witness:
  "valid_spec 300 (1/5) 44100 (1/100) \<and>
   (\<exists>buf. generate_tone 300 (1/5) 44100 (1/100) = Inr buf \<and> length buf = 8820 \<and>
      - 32767 \<le> sint (buf ! 440) \<and> sint (buf ! 440) \<le> 32767)"
proof -
  have v: "valid_spec 300 (1/5) 44100 (1/100)" by (simp add: valid_spec_def)
  have n: "nat (num_samples (1/5) 44100) = 8820" by (simp add: num_samples_def py_int_def)
  from C6_sample_range[OF v] obtain buf where
    b: "generate_tone 300 (1/5) 44100 (1/100) = Inr buf" "length buf = 8820"
       "\<forall>i<length buf. - 32767 \<le> sint (buf ! i) \<and> sint (buf ! i) \<le> 32767"
    unfolding n by blast
  from b(2,3) have "- 32767 \<le> sint (buf ! 440) \<and> sint (buf ! 440) \<le> 32767" by simp
  with v b(1,2) show ?thesis by blast
qed

subsection \<open>Entry 0\<close>

lemma env_at_zero: "0 < F \<Longrightarrow> 0 < n \<Longrightarrow> env F n 0 = 0"
  by (simp add: env_def gain_def ramp_up_def)

lemma amp_at_zero: "amp f d sr 0 = 0"
  by (simp add: amp_def)

lemma astype_int16_zero: "astype_int16 0 = 0"
  by (simp add: astype_int16_def py_int_def)

subsection \<open>C10: the first sample\<close>

text \<open>
  Claim C10. For every valid ToneSpec with at least one sample, with or without a fade,
  the first sample of the returned buffer is exactly 0: the first time point is 0, the
  sine of 0 is 0, a fade factor keeps 0 and so does the quantization.
\<close>

theorem C10_first_sample_zero:
  assumes "valid_spec f d sr fd" "1 \<le> num_samples d sr"
  shows "\<exists>buf. generate_tone f d sr fd = Inr buf \<and> length buf = nat (num_samples d sr) \<and>
           buf ! 0 = 0 \<and> sint (buf ! 0) = 0"
proof -
  note c = valid_spec_counts[OF assms(1)]
  let ?N = "nat (num_samples d sr)"
  let ?buf = "map (\<lambda>i. astype_int16
                 (amp f d sr i * env (fade_samples sr fd) ?N i * 32767)) [0..<?N]"
  have g: "generate_tone f d sr fd = Inr ?buf"
    by (rule generate_tone_closed[OF c(3) valid_spec_fits[OF assms(1)]])
  have "0 < ?N" using assms(2) by simp
  then have "?buf ! 0 = 0" by (simp add: amp_at_zero astype_int16_zero)
  with g show ?thesis by (intro exI[of _ ?buf]) simp
qed

theorem C10_first_sample_zero_witness:
  "valid_spec 300 (1/5) 44100 0 \<and> 1 \<le> num_samples (1/5) 44100 \<and>
   (\<exists>buf. generate_tone 300 (1/5) 44100 0 = Inr buf \<and> length buf = 8820 \<and> sint (buf ! 0) = 0)"
proof -
  have v: "valid_spec 300 (1/5) 44100 0" by (simp add: valid_spec_def)
  have n: "num_samples (1/5) 44100 = 8820" by (simp add: num_samples_def py_int_def)
  then have n1: "1 \<le> num_samples (1/5) 44100" by simp
  from C10_first_sample_zero[OF v n1] v n1 show ?thesis unfolding n by auto
qed

subsection \<open>C7: one result for one input\<close>



subsection \<open>C8: the fade-in attenuates\<close>

text \<open>
  Claim C8. For every valid ToneSpec with a fade count \<open>F > 0\<close> and every index below
  \<open>F\<close>, the magnitude of the returned sample is at most the magnitude of the sample
  that the same call with a fade duration of 0 (no fade) returns at that index.
\<close>

theorem C8_fade_in_attenuates:
  assumes "valid_spec f d sr fd" "0 < fade_samples sr fd"
  shows "\<exists>faded plain.
           generate_tone f d sr fd = Inr faded \<and> generate_tone f d sr 0 = Inr plain \<and>
           length faded = nat (num_samples d sr) \<and> length plain = nat (num_samples d sr) \<and>
           nat (fade_samples sr fd) \<le> nat (num_samples d sr) \<and>
           (\<forall>i<nat (fade_samples sr fd). \<bar>sint (faded ! i)\<bar> \<le> \<bar>sint (plain ! i)\<bar>)"
proof -
  note c = valid_spec_counts[OF assms(1)]
  note fit = valid_spec_fits[OF assms(1)]
  let ?N = "nat (num_samples d sr)"
  let ?F = "fade_samples sr fd"
  let ?x = "\<lambda>i. amp f d sr i * env ?F ?N i"
  let ?faded = "map (\<lambda>i. astype_int16 (?x i * 32767)) [0..<?N]"
  let ?plain = "map (\<lambda>i. astype_int16 (amp f d sr i * 32767)) [0..<?N]"
  have g: "generate_tone f d sr fd = Inr ?faded"
    by (rule generate_tone_closed[OF c(3) fit])
  have z: "fade_samples sr 0 = 0" by (simp add: fade_samples_def py_int_def)
  have "generate_tone f d sr 0 = Inr (map (\<lambda>i. astype_int16
                 (amp f d sr i * env (fade_samples sr 0) ?N i * 32767)) [0..<?N])"
    by (rule generate_tone_closed[OF c(3)]) (simp add: z c(3))
  then have p: "generate_tone f d sr 0 = Inr ?plain" by (simp add: z env_def)
  have FN: "nat ?F \<le> ?N" using fit by simp
  have "\<bar>sint (?faded ! i)\<bar> \<le> \<bar>sint (?plain ! i)\<bar>" if "i < nat ?F" for i
  proof -
    from that FN have i: "i < ?N" by simp
    have a: "\<bar>?x i\<bar> \<le> 1" by (rule faded_entry_abs[OF fit i])
    have b: "\<bar>amp f d sr i\<bar> \<le> 1" by (rule amp_abs)
    have "\<bar>?x i\<bar> \<le> \<bar>amp f d sr i\<bar>" by (rule amp_env_abs[OF FN i])
    then have "\<bar>?x i * 32767\<bar> \<le> \<bar>amp f d sr i * 32767\<bar>" by (simp add: abs_mult)
    then have "\<bar>py_int (?x i * 32767)\<bar> \<le> \<bar>py_int (amp f d sr i * 32767)\<bar>"
      by (rule py_int_mono_abs)
    then show ?thesis using i sint_astype_int16[OF a] sint_astype_int16[OF b] by simp
  qed
  with g p FN show ?thesis by (intro exI[of _ ?faded] exI[of _ ?plain]) simp
qed

theorem C8_fade_in_attenuates_witness:
  "valid_spec 300 (1/5) 44100 (1/100) \<and> 0 < fade_samples 44100 (1/100) \<and>
   (\<exists>faded plain.
      generate_tone 300 (1/5) 44100 (1/100) = Inr faded \<and>
      generate_tone 300 (1/5) 44100 0 = Inr plain \<and>
      length faded = 8820 \<and> length plain = 8820 \<and>
      \<bar>sint (faded ! 220)\<bar> \<le> \<bar>sint (plain ! 220)\<bar>)"
proof -
  have v: "valid_spec 300 (1/5) 44100 (1/100)" by (simp add: valid_spec_def)
  have n: "nat (num_samples (1/5) 44100) = 8820" by (simp add: num_samples_def py_int_def)
  have k: "fade_samples 44100 (1/100) = 441" by (simp add: fade_samples_def py_int_def)
  then have k0: "0 < fade_samples 44100 (1/100)" by simp
  from C8_fade_in_attenuates[OF v k0] obtain faded plain where
    b: "generate_tone 300 (1/5) 44100 (1/100) = Inr faded"
       "generate_tone 300 (1/5) 44100 0 = Inr plain" "length faded = 8820" "length plain = 8820"
       "\<forall>i<nat 441. \<bar>sint (faded ! i)\<bar> \<le> \<bar>sint (plain ! i)\<bar>"
    unfolding n k by blast
  from b(5) have "\<bar>sint (faded ! 220)\<bar> \<le> \<bar>sint (plain ! 220)\<bar>" by simp
  with v k0 b(1-4) show ?thesis by blast
qed

subsection \<open>Concrete runs at quarter turns of the sine\<close>





subsection \<open>C1: the quantization\<close>




subsection \<open>C4: the time points\<close>










subsection \<open>Runs with a single-point fade, with overlapping fades and with no samples\<close>








subsection \<open>The run of the built-in table\<close>


subsection \<open>C3: the two ramps\<close>


subsection \<open>C2: the failures\<close>


subsection \<open>C3, amended\<close>




subsection \<open>C9: overlapping fades\<close>



subsection \<open>C2, amended\<close>






end
